theory Spec2Isabelle
  imports Main
begin

section \<open>Python values used by the scripts\<close>

text \<open>
  The process environment is a dictionary from variable names to strings.
  \<open>os.getenv(name)\<close> returns the stored string, or Python's \<open>None\<close> when the
  variable is not set; it does not raise. Strings are byte lists (UTF-8).
\<close>

type_synonym environ = "string \<rightharpoonup> string"

definition getenv :: "environ \<Rightarrow> string \<Rightarrow> string option" where
  "getenv env name = env name"

text \<open>
  Truth value of an \<open>Optional[str]\<close>, as \<open>not x\<close> and \<open>all([...])\<close> test it:
  \<open>None\<close> and the empty string are false, every other string is true.
\<close>

fun truthy :: "string option \<Rightarrow> bool" where
  "truthy None = False"
| "truthy (Some s) = (s \<noteq> [])"

text \<open>What an f-string prints for an \<open>Optional[str]\<close> field.\<close>

fun py_str :: "string option \<Rightarrow> string" where
  "py_str None = ''None''"
| "py_str (Some s) = s"

section \<open>config.py: the configuration record\<close>

record SupabaseConfig =
  url :: "string option"
  anon_key :: "string option"
  service_role_key :: "string option"
  jwt_secret :: "string option"
  database_url :: "string option"

text \<open>\<open>SupabaseConfig.__init__\<close> (config.py, lines 14 to 19).\<close>

definition SupabaseConfig_init :: "environ \<Rightarrow> SupabaseConfig" where
  "SupabaseConfig_init env =
     \<lparr> url = getenv env ''SUPABASE_URL'',
       anon_key = getenv env ''SUPABASE_ANON_KEY'',
       service_role_key = getenv env ''SUPABASE_SERVICE_ROLE_KEY'',
       jwt_secret = getenv env ''SUPABASE_JWT_SECRET'',
       database_url = getenv env ''DATABASE_URL'' \<rparr>"

text \<open>\<open>SupabaseConfig.validate\<close> (lines 21 to 24): \<open>all([self.url, self.anon_key])\<close>.\<close>

definition validate :: "SupabaseConfig \<Rightarrow> bool" where
  "validate self =
     (let required_fields = [url self, anon_key self]
      in list_all truthy required_fields)"

text \<open>
  \<open>SupabaseConfig.get_connection_info\<close> (lines 26 to 34). The dictionary literal is
  kept as the list of its items, in the order the source writes them; a value is the
  field as it is, \<open>None\<close> included.
\<close>

definition get_connection_info :: "SupabaseConfig \<Rightarrow> (string \<times> string option) list" where
  "get_connection_info self =
     [ (''url'', url self),
       (''anon_key'', anon_key self),
       (''service_role_key'', service_role_key self),
       (''jwt_secret'', jwt_secret self),
       (''database_url'', database_url self) ]"

text \<open>
  Module level of config.py (lines 9 and 37): \<open>load_dotenv()\<close> of the python-dotenv
  package may add variables to the environment, then the global \<open>config\<close> is built
  from the environment it leaves. The package is a parameter.
\<close>

definition config_module :: "(environ \<Rightarrow> environ) \<Rightarrow> environ \<Rightarrow> SupabaseConfig" where
  "config_module load_dotenv env = SupabaseConfig_init (load_dotenv env)"

text \<open>The five variable names that \<open>__init__\<close> passes to \<open>os.getenv\<close>.\<close>

definition env_names :: "string list" where
  "env_names =
     [''SUPABASE_URL'', ''SUPABASE_ANON_KEY'', ''SUPABASE_SERVICE_ROLE_KEY'',
      ''SUPABASE_JWT_SECRET'', ''DATABASE_URL'']"

section \<open>Exceptions, the client library and observable effects\<close>

text \<open>
  Exceptions are values. \<open>ValueError\<close> carries its message; \<open>FileNotFoundError\<close>
  is the one exception class the snapshot script handles by name; \<open>TypeError\<close> is
  what \<open>json.dump\<close> raises; \<open>Raised e\<close> is any other exception (a subclass of
  \<open>Exception\<close>) raised by the supabase package or by the operating system, with
  \<open>'e\<close> the type of such exceptions.
\<close>

datatype 'e exn = ValueError string | TypeError string | FileNotFoundError | Raised 'e

text \<open>
  The Python values that pass through the snapshot script: what the library returns
  and what the script builds from it. A dictionary is the list of its items in order,
  with string keys (as in a decoded JSON response and in the script's own literals).
  A float is given by the text \<open>json.dump\<close> writes for it (its \<open>repr\<close>, or
  \<open>NaN\<close>, \<open>Infinity\<close>, \<open>-Infinity\<close>); the script never computes with one.
  An integer is within the interpreter's limit for conversion to decimal text.
  \<open>PObject cls\<close> is an object of any other class, named \<open>cls\<close>, such as the bucket
  objects of the storage client; \<open>json\<close> has no encoding for it.
\<close>

datatype pyval =
    PNone
  | PBool bool
  | PInt int
  | PFloat string
  | PStr string
  | PList "pyval list"
  | PDict "(string \<times> pyval) list"
  | PObject string

text \<open>
  The supabase package is an external collaborator, taken as a parameter. \<open>'c\<close> is
  the opaque \<open>Client\<close>. Every operation either returns or raises:
  \<^item> \<open>create_client(url, key)\<close>;
  \<^item> \<open>client.auth.admin.list_users(limit=1)\<close>, whose response is never read;
  \<^item> \<open>client.table(name).select('*').limit(1).execute()\<close>, of which only
    \<open>response.data\<close> is read: \<open>None\<close> or a list of rows. \<open>Inl\<close> stands for
    any exception raised while lines 75 to 81 of the snapshot script run;
  \<^item> \<open>client.storage.list_buckets()\<close>, a list.
  Rows and buckets are Python values of any kind: the script does not inspect them.
\<close>

record ('e, 'c) sdk =
  create_client :: "string option \<Rightarrow> string option \<Rightarrow> 'e + 'c"
  list_users :: "'c \<Rightarrow> 'e + unit"
  table_select :: "'c \<Rightarrow> string \<Rightarrow> 'e + pyval list option"
  list_buckets :: "'c \<Rightarrow> 'e + pyval list"

text \<open>A library call inside a function that does not catch its exception.\<close>

fun raised :: "'e + 'a \<Rightarrow> 'e exn + 'a" where
  "raised (Inl e) = Inl (Raised e)"
| "raised (Inr x) = Inr x"

text \<open>
  What supabase\_client.py does besides returning: the line it prints and the call it
  makes to the library's factory, in order.
\<close>

datatype event = Print string | Create_client "string option" "string option"

section \<open>supabase\_client.py: the client factory\<close>

text \<open>The two \<open>ValueError\<close> messages (lines 19 and 35) and the two printed prefixes
  (lines 21 and 37), as the UTF-8 bytes of the source's literals.\<close>

definition msg_config_incomplete :: string where
  "msg_config_incomplete =
     ''Supabase '' @ [CHR 0xE9, CHR 0x85, CHR 0x8D, CHR 0xE7, CHR 0xBD, CHR 0xAE, CHR 0xE4,
       CHR 0xB8, CHR 0x8D, CHR 0xE5, CHR 0xAE, CHR 0x8C, CHR 0xE6, CHR 0x95, CHR 0xB4, CHR 0xEF,
       CHR 0xBC, CHR 0x8C, CHR 0xE8, CHR 0xAF, CHR 0xB7, CHR 0xE6, CHR 0xA3, CHR 0x80, CHR 0xE6,
       CHR 0x9F, CHR 0xA5, CHR 0xE7, CHR 0x8E, CHR 0xAF, CHR 0xE5, CHR 0xA2, CHR 0x83, CHR 0xE5,
       CHR 0x8F, CHR 0x98, CHR 0xE9, CHR 0x87, CHR 0x8F]"

definition msg_no_service_role_key :: string where
  "msg_no_service_role_key =
     ''Service role key '' @ [CHR 0xE6, CHR 0x9C, CHR 0xAA, CHR 0xE9, CHR 0x85, CHR 0x8D,
       CHR 0xE7, CHR 0xBD, CHR 0xAE]"

definition connecting_prefix :: string where
  "connecting_prefix =
     [CHR 0xE8, CHR 0xBF, CHR 0x9E, CHR 0xE6, CHR 0x8E, CHR 0xA5, CHR 0xE5, CHR 0x88, CHR 0xB0]
     @ '' Supabase: ''"

definition connecting_admin_prefix :: string where
  "connecting_admin_prefix =
     [CHR 0xE8, CHR 0xBF, CHR 0x9E, CHR 0xE6, CHR 0x8E, CHR 0xA5, CHR 0xE5, CHR 0x88, CHR 0xB0]
     @ '' Supabase ('' @ [CHR 0xE7, CHR 0xAE, CHR 0xA1, CHR 0xE7, CHR 0x90, CHR 0x86, CHR 0xE5,
       CHR 0x91, CHR 0x98, CHR 0xE6, CHR 0xA8, CHR 0xA1, CHR 0xE5, CHR 0xBC, CHR 0x8F] @ ''): ''"

text \<open>
  \<open>create_supabase_client\<close> (lines 8 to 22). The source reads the global \<open>config\<close>;
  here it is an argument. The result is what the call returns or raises, with the
  effects it had.
\<close>

definition create_supabase_client ::
  "('e, 'c) sdk \<Rightarrow> SupabaseConfig \<Rightarrow> ('e exn + 'c) \<times> event list" where
  "create_supabase_client lib config =
     (if \<not> validate config then (Inl (ValueError msg_config_incomplete), [])
      else (raised (create_client lib (url config) (anon_key config)),
            [Print (connecting_prefix @ py_str (url config)),
             Create_client (url config) (anon_key config)]))"

text \<open>\<open>create_supabase_admin_client\<close> (lines 24 to 38).\<close>

definition create_supabase_admin_client ::
  "('e, 'c) sdk \<Rightarrow> SupabaseConfig \<Rightarrow> ('e exn + 'c) \<times> event list" where
  "create_supabase_admin_client lib config =
     (if \<not> truthy (service_role_key config)
      then (Inl (ValueError msg_no_service_role_key), [])
      else (raised (create_client lib (url config) (service_role_key config)),
            [Print (connecting_admin_prefix @ py_str (url config)),
             Create_client (url config) (service_role_key config)]))"

text \<open>
  Importing supabase\_client.py: \<open>from config import config\<close> runs config.py's module
  level, the two functions are defined, and line 41 binds the global \<open>supabase\<close> to
  \<open>create_supabase_client()\<close>. An exception there ends the import and no module
  globals exist; otherwise the globals are \<open>config\<close> and \<open>supabase\<close>.
\<close>

record 'c client_module =
  config :: SupabaseConfig
  supabase :: 'c

definition import_supabase_client ::
  "(environ \<Rightarrow> environ) \<Rightarrow> ('e, 'c) sdk \<Rightarrow> environ
     \<Rightarrow> ('e exn + 'c client_module) \<times> event list" where
  "import_supabase_client load_dotenv lib env =
     (let cfg = config_module load_dotenv env;
          (r, effects) = create_supabase_client lib cfg
      in (case r of
            Inl e \<Rightarrow> (Inl e, effects)
          | Inr client \<Rightarrow> (Inr \<lparr> config = cfg, supabase = client \<rparr>, effects)))"

section \<open>download\_supabase\_data.py: the schema snapshot script\<close>

text \<open>
  The lines the script prints. Each constructor stands for one \<open>print\<close> statement of
  the source (its line number is given) and carries the values the statement
  interpolates; the decorative text itself is not modelled. Printing does not fail.
\<close>

datatype 'e line =
    Env_config_missing          \<comment> \<open>line 33\<close>
  | Conn_test_ok                \<comment> \<open>line 42\<close>
  | Conn_test_failed 'e         \<comment> \<open>line 45\<close>
  | Continuing                  \<comment> \<open>line 46\<close>
  | Tables_found nat            \<comment> \<open>line 86\<close>
  | Buckets_found nat           \<comment> \<open>line 97\<close>
  | Buckets_error 'e            \<comment> \<open>line 100\<close>
  | Schema_saved                \<comment> \<open>line 117\<close>
  | Schema_save_error "'e exn"  \<comment> \<open>line 120\<close>
  | Env_file_created            \<comment> \<open>line 130\<close>
  | Env_file_error 'e           \<comment> \<open>line 133\<close>
  | Example_created             \<comment> \<open>line 164\<close>
  | Example_error 'e            \<comment> \<open>line 166\<close>
  | Starting                    \<comment> \<open>line 169\<close>
  | Missing_settings            \<comment> \<open>line 180\<close>
  | Connecting_to string        \<comment> \<open>line 183\<close>
  | Client_created              \<comment> \<open>line 188\<close>
  | Client_failed 'e            \<comment> \<open>line 190\<close>
  | Fetching_tables             \<comment> \<open>line 198\<close>
  | Fetching_buckets            \<comment> \<open>line 202\<close>
  | Creating_env_file           \<comment> \<open>line 209\<close>
  | Creating_example            \<comment> \<open>line 213\<close>
  | Summary nat nat             \<comment> \<open>lines 216 to 221\<close>

text \<open>
  The files the script touches, as the outcomes of its file operations:
  \<^item> opening \<open>env_config.txt\<close> and reading its lines (lines 25 and 26);
  \<^item> opening \<open>database_schema.json\<close> for writing (line 115): \<open>None\<close> when it
    succeeds, which leaves the file empty, the exception otherwise. What
    \<open>json.dump\<close> then writes (line 116) is computed by \<open>json_dump\<close> below; the
    write itself does not fail;
  \<^item> copying \<open>env_config.txt\<close> to \<open>.env\<close> (lines 127 to 129);
  \<^item> \<open>func_dir.mkdir\<close> (line 139), \<open>index_file.exists()\<close> (line 142) and writing
    the example function (lines 162 and 163).
\<close>

record 'e files =
  env_config_txt :: "'e exn + string list"
  schema_open :: "'e option"
  env_copy :: "'e option"
  functions_mkdir :: "'e option"
  index_exists :: bool
  index_write :: "'e option"

subsection \<open>String operations of \<open>load_env_config\<close>\<close>

text \<open>
  \<open>str.strip()\<close> removes leading and trailing white space: the characters for which
  \<open>str.isspace()\<close> holds, here as their UTF-8 encodings (U+0009 to U+000D, U+001C to
  U+0020, U+0085, U+00A0, U+1680, U+2000 to U+200A, U+2028, U+2029, U+202F, U+205F,
  U+3000).
\<close>

definition space_seqs :: "string list" where
  "space_seqs =
     map (\<lambda>c. [c]) [CHR 0x09, CHR 0x0A, CHR 0x0B, CHR 0x0C, CHR 0x0D,
                     CHR 0x1C, CHR 0x1D, CHR 0x1E, CHR 0x1F, CHR 0x20]
     @ [[CHR 0xC2, CHR 0x85], [CHR 0xC2, CHR 0xA0], [CHR 0xE1, CHR 0x9A, CHR 0x80]]
     @ map (\<lambda>c. [CHR 0xE2, CHR 0x80, c])
         [CHR 0x80, CHR 0x81, CHR 0x82, CHR 0x83, CHR 0x84, CHR 0x85, CHR 0x86, CHR 0x87,
          CHR 0x88, CHR 0x89, CHR 0x8A, CHR 0xA8, CHR 0xA9, CHR 0xAF]
     @ [[CHR 0xE2, CHR 0x81, CHR 0x9F], [CHR 0xE3, CHR 0x80, CHR 0x80]]"

fun drop_one :: "string list \<Rightarrow> string \<Rightarrow> string option" where
  "drop_one [] s = None"
| "drop_one (w # ws) s =
     (if w \<noteq> [] \<and> take (length w) s = w then Some (drop (length w) s)
      else drop_one ws s)"

lemma drop_one_shorter: "drop_one ws s = Some s' \<Longrightarrow> length s' < length s"
proof (induction ws)
  case Nil
  then show ?case by simp
next
  case (Cons w ws)
  show ?case
  proof (cases "w \<noteq> [] \<and> take (length w) s = w")
    case True
    then have "s \<noteq> []" by auto
    moreover from True Cons.prems have "s' = drop (length w) s" by simp
    ultimately show ?thesis using True by (cases w) auto
  next
    case False
    with Cons show ?thesis by auto
  qed
qed

function lstrip_seqs :: "string list \<Rightarrow> string \<Rightarrow> string" where
  "lstrip_seqs ws s =
     (case drop_one ws s of None \<Rightarrow> s | Some s' \<Rightarrow> lstrip_seqs ws s')"
  by pat_completeness auto
termination
  by (relation "measure (\<lambda>(ws, s). length s)") (auto dest: drop_one_shorter)

definition strip :: "string \<Rightarrow> string" where
  "strip s = rev (lstrip_seqs (map rev space_seqs) (rev (lstrip_seqs space_seqs s)))"

definition startswith :: "string \<Rightarrow> string \<Rightarrow> bool" where
  "startswith s p = (take (length p) s = p)"

text \<open>
  \<open>line.split('=', 1)\<close>: \<open>None\<close> when the line has no \<open>=\<close> (the list then has one
  element), else the text before the first \<open>=\<close> and the text after it.
\<close>

fun split_eq :: "string \<Rightarrow> (string \<times> string) option" where
  "split_eq [] = None"
| "split_eq (c # s) =
     (if c = CHR ''='' then Some ([], s)
      else (case split_eq s of None \<Rightarrow> None | Some (k, v) \<Rightarrow> Some (c # k, v)))"

text \<open>\<open>config[key] = value\<close> on a dictionary kept as its list of items.\<close>

fun dict_set :: "('k \<times> 'v) list \<Rightarrow> 'k \<Rightarrow> 'v \<Rightarrow> ('k \<times> 'v) list" where
  "dict_set [] k v = [(k, v)]"
| "dict_set ((k', v') # kvs) k v =
     (if k' = k then (k, v) # kvs else (k', v') # dict_set kvs k v)"

subsection \<open>The functions of the script\<close>

text \<open>
  \<open>load_env_config\<close> (lines 21 to 34). The loop body is \<open>parse_lines\<close>; unpacking
  the result of \<open>split\<close> into \<open>key, value\<close> raises \<open>ValueError\<close> when the line
  holds no \<open>=\<close>, and only \<open>FileNotFoundError\<close> is caught.
\<close>

fun parse_lines ::
  "string list \<Rightarrow> (string \<times> string) list \<Rightarrow> 'e exn + (string \<times> string) list" where
  "parse_lines [] cfg = Inr cfg"
| "parse_lines (raw # rest) cfg =
     (let line = strip raw
      in if line \<noteq> [] \<and> \<not> startswith line ''#''
         then (case split_eq line of
                 None \<Rightarrow> Inl (ValueError ''not enough values to unpack (expected 2, got 1)'')
               | Some (key, val) \<Rightarrow> parse_lines rest (dict_set cfg key val))
         else parse_lines rest cfg)"

definition load_env_config ::
  "'e files \<Rightarrow> ('e exn + (string \<times> string) list) \<times> 'e line list" where
  "load_env_config fs =
     (case env_config_txt fs of
        Inl FileNotFoundError \<Rightarrow> (Inr [], [Env_config_missing])
      | Inl e \<Rightarrow> (Inl e, [])
      | Inr lines \<Rightarrow> (parse_lines lines [], []))"

text \<open>\<open>test_supabase_connection\<close> (lines 36 to 47).\<close>

definition test_supabase_connection :: "('e, 'c) sdk \<Rightarrow> 'c \<Rightarrow> bool \<times> 'e line list" where
  "test_supabase_connection lib client =
     (case list_users lib client of
        Inr response \<Rightarrow> (True, [Conn_test_ok])
      | Inl e \<Rightarrow> (True, [Conn_test_failed e, Continuing]))"

text \<open>
  \<open>get_database_tables\<close> (lines 49 to 91). \<open>probe_tables\<close> is the \<open>for\<close> loop of
  lines 72 to 84 with \<open>tables_info\<close> as its accumulator: an exception of the probe
  is caught by the inner handler, which goes on with the next name. Every statement of
  the loop body stands inside that handler, so nothing reaches the outer handler of
  lines 89 to 91.
\<close>

definition common_tables :: "string list" where
  "common_tables = [''profiles'', ''users'', ''posts'', ''comments'', ''settings'']"

definition table_entry :: "string \<Rightarrow> pyval list \<Rightarrow> pyval" where
  "table_entry table_name data =
     PDict [ (''table_name'', PStr table_name),
            (''exists'', PBool True),
            (''sample_data'', PList (if data \<noteq> [] then take 1 data else [])) ]"

fun probe_tables :: "('e, 'c) sdk \<Rightarrow> 'c \<Rightarrow> string list \<Rightarrow> pyval list \<Rightarrow> pyval list" where
  "probe_tables lib client [] tables_info = tables_info"
| "probe_tables lib client (table_name # rest) tables_info =
     (case table_select lib client table_name of
        Inl e \<Rightarrow> probe_tables lib client rest tables_info
      | Inr None \<Rightarrow> probe_tables lib client rest tables_info
      | Inr (Some data) \<Rightarrow>
          probe_tables lib client rest (tables_info @ [table_entry table_name data]))"

definition get_database_tables :: "('e, 'c) sdk \<Rightarrow> 'c \<Rightarrow> pyval list \<times> 'e line list" where
  "get_database_tables lib client =
     (let tables_info = probe_tables lib client common_tables []
      in (tables_info, [Tables_found (length tables_info)]))"

text \<open>\<open>get_storage_buckets\<close> (lines 93 to 101).\<close>

definition get_storage_buckets :: "('e, 'c) sdk \<Rightarrow> 'c \<Rightarrow> pyval list \<times> 'e line list" where
  "get_storage_buckets lib client =
     (case list_buckets lib client of
        Inr buckets \<Rightarrow> (buckets, [Buckets_found (length buckets)])
      | Inl e \<Rightarrow> ([], [Buckets_error e]))"

subsection \<open>\<open>json.dump\<close> with \<open>indent=2\<close> and \<open>ensure_ascii=False\<close>\<close>

text \<open>
  The standard library's encoder, as \<open>json.dump\<close> runs it for line 116: the
  generators \<open>_iterencode\<close>, \<open>_iterencode_list\<close> and \<open>_iterencode_dict\<close> of
  \<open>json.encoder\<close> yield the text piece by piece and \<open>json.dump\<close> writes each piece
  to the file as it comes. An object without an encoding raises \<open>TypeError\<close> in the
  middle of that, after the pieces before it have been written. The result is the
  text written, and \<open>None\<close> when the encoder came to its end or the class name of the
  object that stopped it.
\<close>

definition digit_char :: "nat \<Rightarrow> char" where
  "digit_char d = ''0123456789abcdef'' ! d"

function natstr :: "nat \<Rightarrow> string" where
  "natstr n = (if n < 10 then [digit_char n] else natstr (n div 10) @ [digit_char (n mod 10)])"
  by pat_completeness auto
termination
  by (relation "measure id") auto

text \<open>\<open>int.__repr__\<close>.\<close>

definition intstr :: "int \<Rightarrow> string" where
  "intstr i = (if i < 0 then CHR ''-'' # natstr (nat (- i)) else natstr (nat i))"

text \<open>
  \<open>encode_basestring\<close>: the string between double quotes, with the double quote,
  the backslash and the characters below U+0020 escaped.
\<close>

definition escape_char :: "char \<Rightarrow> string" where
  "escape_char c =
     (if c = CHR 0x22 then [CHR 0x5C, CHR 0x22]
      else if c = CHR 0x5C then [CHR 0x5C, CHR 0x5C]
      else if c = CHR 0x08 then [CHR 0x5C, CHR ''b'']
      else if c = CHR 0x0C then [CHR 0x5C, CHR ''f'']
      else if c = CHR 0x0A then [CHR 0x5C, CHR ''n'']
      else if c = CHR 0x0D then [CHR 0x5C, CHR ''r'']
      else if c = CHR 0x09 then [CHR 0x5C, CHR ''t'']
      else if (of_char c :: nat) < 32
        then [CHR 0x5C, CHR ''u'', CHR ''0'', CHR ''0'',
              digit_char (of_char c div 16), digit_char (of_char c mod 16)]
      else [c])"

definition encode_basestring :: "string \<Rightarrow> string" where
  "encode_basestring s = CHR 0x22 # concat (map escape_char s) @ [CHR 0x22]"

definition newline_indent :: "nat \<Rightarrow> string" where
  "newline_indent level = CHR 0x0A # replicate (2 * level) CHR '' ''"

text \<open>
  \<open>iterencode_list\<close> and \<open>iterencode_dict\<close> are the loops over the elements and the
  items; \<open>level\<close> is the indentation level of what they write and \<open>first\<close> tells the
  first round from the others.
\<close>

fun iterencode :: "nat \<Rightarrow> pyval \<Rightarrow> string \<times> string option"
  and iterencode_list :: "nat \<Rightarrow> bool \<Rightarrow> pyval list \<Rightarrow> string \<times> string option"
  and iterencode_dict :: "nat \<Rightarrow> bool \<Rightarrow> (string \<times> pyval) list \<Rightarrow> string \<times> string option"
where
  "iterencode level PNone = (''null'', None)"
| "iterencode level (PBool b) = ((if b then ''true'' else ''false''), None)"
| "iterencode level (PInt i) = (intstr i, None)"
| "iterencode level (PFloat r) = (r, None)"
| "iterencode level (PStr s) = (encode_basestring s, None)"
| "iterencode level (PList lst) =
     (if lst = [] then (''[]'', None)
      else (case iterencode_list (level + 1) True lst of
              (text, None) \<Rightarrow> (text @ newline_indent level @ '']'', None)
            | (text, Some cls) \<Rightarrow> (text, Some cls)))"
| "iterencode level (PDict dct) =
     (if dct = [] then (''{}'', None)
      else (case iterencode_dict (level + 1) True dct of
              (text, None) \<Rightarrow>
                (''{'' @ newline_indent (level + 1) @ text @ newline_indent level @ ''}'', None)
            | (text, Some cls) \<Rightarrow> (''{'' @ newline_indent (level + 1) @ text, Some cls)))"
| "iterencode level (PObject cls) = ([], Some cls)"
| "iterencode_list level first [] = ([], None)"
| "iterencode_list level first (v # rest) =
     (let buf = (if first then ''['' else '','') @ newline_indent level
      in (case iterencode level v of
            (text, Some cls) \<Rightarrow> (buf @ text, Some cls)
          | (text, None) \<Rightarrow>
              (case iterencode_list level False rest of
                 (text', r) \<Rightarrow> (buf @ text @ text', r))))"
| "iterencode_dict level first [] = ([], None)"
| "iterencode_dict level first ((k, v) # rest) =
     (let sep = (if first then [] else '','' @ newline_indent level)
      in (case iterencode level v of
            (text, Some cls) \<Rightarrow> (sep @ encode_basestring k @ '': '' @ text, Some cls)
          | (text, None) \<Rightarrow>
              (case iterencode_dict level False rest of
                 (text', r) \<Rightarrow> (sep @ encode_basestring k @ '': '' @ text @ text', r))))"

definition json_dump :: "pyval \<Rightarrow> string \<times> string option" where
  "json_dump obj = iterencode 0 obj"

definition not_serializable :: "string \<Rightarrow> string" where
  "not_serializable cls = ''Object of type '' @ cls @ '' is not JSON serializable''"

text \<open>
  \<open>save_database_schema\<close> (lines 103 to 121). \<open>schema_data\<close> is the dictionary of
  lines 105 to 112. The third component of the result is the content of
  \<open>database_schema.json\<close> once the \<open>with\<close> block is left: \<open>None\<close> when the file
  could not be opened and is as it was, else the text written to it, whether
  \<open>json.dump\<close> came to its end or raised on the way.
\<close>

definition metadata_note :: string where
  "metadata_note =
     [CHR 0xE9, CHR 0x80, CHR 0x9A, CHR 0xE8, CHR 0xBF, CHR 0x87] @ ''Supabase Python SDK''
     @ [CHR 0xE8, CHR 0x8E, CHR 0xB7, CHR 0xE5, CHR 0x8F, CHR 0x96, CHR 0xE7, CHR 0x9A, CHR 0x84,
        CHR 0xE5, CHR 0x9F, CHR 0xBA, CHR 0xE7, CHR 0xA1, CHR 0x80, CHR 0xE4, CHR 0xBF, CHR 0xA1,
        CHR 0xE6, CHR 0x81, CHR 0xAF]"

definition schema_data :: "pyval list \<Rightarrow> pyval list \<Rightarrow> pyval" where
  "schema_data tables_info buckets_info =
     PDict [ (''tables'', PList tables_info),
            (''storage_buckets'', PList buckets_info),
            (''metadata'', PDict [ (''generated_at'', PStr ''2025-12-29''),
                                  (''note'', PStr metadata_note) ]) ]"

definition save_database_schema ::
  "'e files \<Rightarrow> pyval list \<Rightarrow> pyval list \<Rightarrow> bool \<times> 'e line list \<times> string option" where
  "save_database_schema fs tables_info buckets_info =
     (case schema_open fs of
        Some e \<Rightarrow> (False, [Schema_save_error (Raised e)], None)
      | None \<Rightarrow>
          (case json_dump (schema_data tables_info buckets_info) of
             (text, None) \<Rightarrow> (True, [Schema_saved], Some text)
           | (text, Some cls) \<Rightarrow>
               (False, [Schema_save_error (TypeError (not_serializable cls))], Some text)))"

text \<open>\<open>create_env_file\<close> (lines 123 to 134).\<close>

definition create_env_file :: "'e files \<Rightarrow> bool \<times> 'e line list" where
  "create_env_file fs =
     (case env_copy fs of
        None \<Rightarrow> (True, [Env_file_created])
      | Some e \<Rightarrow> (False, [Env_file_error e]))"

text \<open>
  \<open>create_example_edge_function\<close> (lines 136 to 166). \<open>mkdir\<close> stands outside any
  handler, so its exception leaves the function.
\<close>

definition create_example_edge_function :: "'e files \<Rightarrow> ('e exn + unit) \<times> 'e line list" where
  "create_example_edge_function fs =
     (case functions_mkdir fs of
        Some e \<Rightarrow> (Inl (Raised e), [])
      | None \<Rightarrow>
          if \<not> index_exists fs
          then (case index_write fs of
                  None \<Rightarrow> (Inr (), [Example_created])
                | Some e \<Rightarrow> (Inr (), [Example_error e]))
          else (Inr (), []))"

text \<open>
  \<open>main\<close> (lines 168 to 221). The result is what \<open>main\<close> returns (\<open>None\<close>, here
  the unit value) or the exception that leaves it, the lines printed, and the content
  of \<open>database_schema.json\<close> if the script opened it.
\<close>

definition main ::
  "('e, 'c) sdk \<Rightarrow> 'e files \<Rightarrow> ('e exn + unit) \<times> 'e line list \<times> string option" where
  "main lib fs =
     (case load_env_config fs of
        (Inl e, out0) \<Rightarrow> (Inl e, Starting # out0, None)
      | (Inr cfg, out0) \<Rightarrow>
          if cfg = [] then (Inr (), Starting # out0, None)
          else
            let sb_url = map_of cfg ''SUPABASE_URL'';
                service_key = map_of cfg ''SUPABASE_SERVICE_ROLE_KEY''
            in if \<not> truthy sb_url \<or> \<not> truthy service_key
               then (Inr (), Starting # out0 @ [Missing_settings], None)
               else
                 (case create_client lib sb_url service_key of
                    Inl e \<Rightarrow>
                      (Inr (),
                       Starting # out0 @ [Connecting_to (py_str sb_url), Client_failed e],
                       None)
                  | Inr client \<Rightarrow>
                      let (ok, out1) = test_supabase_connection lib client;
                          out_a = Starting # out0
                                  @ [Connecting_to (py_str sb_url), Client_created] @ out1
                      in if \<not> ok then (Inr (), out_a, None)
                         else
                           let (tables_info, out2) = get_database_tables lib client;
                               (buckets_info, out3) = get_storage_buckets lib client;
                               (saved, out4, artifact) =
                                 save_database_schema fs tables_info buckets_info;
                               (copied, out5) = create_env_file fs;
                               (r, out6) = create_example_edge_function fs;
                               out_b = out_a @ [Fetching_tables] @ out2
                                       @ [Fetching_buckets] @ out3 @ out4
                                       @ [Creating_env_file] @ out5
                                       @ [Creating_example] @ out6
                           in (case r of
                                 Inl e \<Rightarrow> (Inl e, out_b, artifact)
                               | Inr u \<Rightarrow>
                                   (Inr (),
                                    out_b @ [Summary (length tables_info) (length buckets_info)],
                                    artifact))))"

section \<open>Concrete inputs\<close>

text \<open>
  A stand-in for the library that records what a client was built from: the handle
  is the pair of endpoint and credential. Listing users is refused; of the probed
  tables, \<open>users\<close> has two rows, \<open>settings\<close> is empty, \<open>posts\<close> raises, and the
  others answer without data. There is one bucket, given as a dictionary.
\<close>

definition mock_sdk :: "(string, string option \<times> string option) sdk" where
  "mock_sdk =
     \<lparr> create_client = (\<lambda>u k. Inr (u, k)),
       list_users = (\<lambda>c. Inl ''not allowed''),
       table_select = (\<lambda>c n.
         if n = ''users'' then Inr (Some [PDict [(''id'', PInt 1)], PDict [(''id'', PInt 2)]])
         else if n = ''settings'' then Inr (Some [])
         else if n = ''posts'' then Inl ''relation does not exist''
         else Inr None),
       list_buckets = (\<lambda>c. Inr [PDict [(''name'', PStr ''avatars'')]]) \<rparr>"


definition mock_files :: "string files" where
  "mock_files =
     \<lparr> env_config_txt =
         Inr [''# settings'', ''SUPABASE_URL=https://abc.supabase.co'',
              ''SUPABASE_SERVICE_ROLE_KEY=srk''],
       schema_open = None,
       env_copy = None,
       functions_mkdir = None,
       index_exists = False,
       index_write = None \<rparr>"


definition full_config :: SupabaseConfig where
  "full_config =
     \<lparr> url = Some ''https://abc.supabase.co'', anon_key = Some ''anon'',
       service_role_key = Some ''srk'', jwt_secret = None, database_url = None \<rparr>"

section \<open>Properties of the configuration record\<close>

lemma truthy_iff: "truthy x \<longleftrightarrow> (\<exists>s. x = Some s \<and> s \<noteq> [])"
  by (cases x) simp_all

text \<open>
  Claim C1. \<open>validate\<close> is true exactly when the endpoint URL and the anonymous key
  are both present and non-empty; replacing the other three fields by any values
  whatsoever leaves the answer unchanged.
\<close>

theorem validate_iff_url_and_anon_key:
  "validate R =
     ((\<exists>u. url R = Some u \<and> u \<noteq> []) \<and> (\<exists>k. anon_key R = Some k \<and> k \<noteq> []))
   \<and> validate (R\<lparr>service_role_key := s, jwt_secret := j, database_url := d\<rparr>) = validate R"
  by (simp add: validate_def truthy_iff)

theorem validate_iff_url_and_anon_key_witness:
  "validate (full_config\<lparr>service_role_key := None, jwt_secret := Some ''s'',
                            database_url := Some ''postgres://db''\<rparr>)
   \<and> \<not> validate (full_config\<lparr>anon_key := Some []\<rparr>)"
proof -
  have u: "url full_config = Some ''https://abc.supabase.co''"
    and k: "anon_key full_config = Some ''anon''"
    by (simp_all add: full_config_def)
  have "validate full_config"
    using validate_iff_url_and_anon_key [of full_config] u k by simp
  moreover have "\<not> validate (full_config\<lparr>anon_key := Some []\<rparr>)"
    using validate_iff_url_and_anon_key [of "full_config\<lparr>anon_key := Some []\<rparr>"] by simp
  ultimately show ?thesis
    using validate_iff_url_and_anon_key
            [where R = full_config and s = None and j = "Some ''s''"
               and d = "Some ''postgres://db''"]
    by simp
qed

text \<open>
  Claim C4. Building the record from an environment and asking for the connection
  information yields a dictionary with exactly the five keys \<open>url\<close>, \<open>anon_key\<close>,
  \<open>service_role_key\<close>, \<open>jwt_secret\<close>, \<open>database_url\<close>, each mapped to what the
  environment holds for its variable: a set value is returned as the same string, an
  unset variable as \<open>None\<close>, which is neither the string "None" nor "undefined".
\<close>

theorem load_describe_roundtrip:
  "map fst (get_connection_info (SupabaseConfig_init env)) =
     [''url'', ''anon_key'', ''service_role_key'', ''jwt_secret'', ''database_url'']
   \<and> map snd (get_connection_info (SupabaseConfig_init env)) = map env env_names
   \<and> (\<forall>(k, n) \<in> set (zip (map fst (get_connection_info (SupabaseConfig_init env))) env_names).
         (\<forall>v. env n = Some v \<longrightarrow>
            map_of (get_connection_info (SupabaseConfig_init env)) k = Some (Some v))
       \<and> (env n = None \<longrightarrow>
            map_of (get_connection_info (SupabaseConfig_init env)) k = Some None
          \<and> map_of (get_connection_info (SupabaseConfig_init env)) k \<noteq> Some (Some ''None'')
          \<and> map_of (get_connection_info (SupabaseConfig_init env)) k
              \<noteq> Some (Some ''undefined'')))"
  by (simp add: get_connection_info_def SupabaseConfig_init_def getenv_def env_names_def)

theorem load_describe_roundtrip_witness:
  "map_of (get_connection_info
             (SupabaseConfig_init [''SUPABASE_URL'' \<mapsto> ''https://abc.supabase.co'']))
          ''url''
     = Some (Some ''https://abc.supabase.co'')
   \<and> map_of (get_connection_info
             (SupabaseConfig_init [''SUPABASE_URL'' \<mapsto> ''https://abc.supabase.co'']))
          ''anon_key''
     = Some None"
proof -
  let ?env = "[''SUPABASE_URL'' \<mapsto> ''https://abc.supabase.co'']"
  let ?info = "get_connection_info (SupabaseConfig_init ?env)"
  have keys: "map fst ?info =
      [''url'', ''anon_key'', ''service_role_key'', ''jwt_secret'', ''database_url'']"
    using load_describe_roundtrip [of ?env] by (rule conjunct1)
  have "\<forall>(k, n) \<in> set (zip (map fst ?info) env_names).
         (\<forall>v. ?env n = Some v \<longrightarrow> map_of ?info k = Some (Some v))
       \<and> (?env n = None \<longrightarrow> map_of ?info k = Some None
          \<and> map_of ?info k \<noteq> Some (Some ''None'')
          \<and> map_of ?info k \<noteq> Some (Some ''undefined''))"
    using load_describe_roundtrip [of ?env] by (elim conjE)
  then show ?thesis
    unfolding keys by (simp add: env_names_def)
qed

text \<open>
  Claim C5. Construction reads the five variables \<open>SUPABASE_URL\<close>,
  \<open>SUPABASE_ANON_KEY\<close>, \<open>SUPABASE_SERVICE_ROLE_KEY\<close>, \<open>SUPABASE_JWT_SECRET\<close> and
  \<open>DATABASE_URL\<close> and nothing else: each field is the lookup of its variable, two
  environments that agree on these five names give the same record, and a variable
  that is not set gives the field \<open>None\<close>. Construction is a total function of the
  environment: it has no failing branch.
\<close>

theorem load_reads_five_variables:
  "url (SupabaseConfig_init env) = env ''SUPABASE_URL''
   \<and> anon_key (SupabaseConfig_init env) = env ''SUPABASE_ANON_KEY''
   \<and> service_role_key (SupabaseConfig_init env) = env ''SUPABASE_SERVICE_ROLE_KEY''
   \<and> jwt_secret (SupabaseConfig_init env) = env ''SUPABASE_JWT_SECRET''
   \<and> database_url (SupabaseConfig_init env) = env ''DATABASE_URL''
   \<and> ((\<forall>n \<in> set env_names. env' n = env n) \<longrightarrow>
        SupabaseConfig_init env' = SupabaseConfig_init env)
   \<and> SupabaseConfig_init Map.empty =
        \<lparr> url = None, anon_key = None, service_role_key = None,
          jwt_secret = None, database_url = None \<rparr>"
  by (simp add: SupabaseConfig_init_def getenv_def env_names_def)

theorem load_reads_five_variables_witness:
  "SupabaseConfig_init [''SUPABASE_URL'' \<mapsto> ''u'', ''HOME'' \<mapsto> ''/root'']
     = SupabaseConfig_init [''SUPABASE_URL'' \<mapsto> ''u'']
   \<and> anon_key (SupabaseConfig_init [''SUPABASE_URL'' \<mapsto> ''u'']) = None"
proof -
  let ?env = "[''SUPABASE_URL'' \<mapsto> ''u'']"
  let ?env' = "[''SUPABASE_URL'' \<mapsto> ''u'', ''HOME'' \<mapsto> ''/root'']"
  have agree: "\<forall>n \<in> set env_names. ?env' n = ?env n"
    by (simp add: env_names_def)
  from load_reads_five_variables [of ?env ?env'] agree show ?thesis
    by simp
qed

section \<open>Properties of the client factory\<close>

lemma raised_Inr_iff: "raised x = Inr c \<longleftrightarrow> x = Inr c"
  by (cases x) simp_all

lemma raised_not_ValueError: "raised x \<noteq> Inl (ValueError m)"
  by (cases x) simp_all

text \<open>
  Claim C2. When \<open>validate\<close> does not hold (for instance the endpoint is set and the
  anonymous key is not), \<open>create_supabase_client\<close> raises \<open>ValueError\<close>, the
  exception the specification calls ConfigurationError, with the message of line 19
  ("Supabase configuration incomplete, please check the environment variables"). It
  has had no effect by then: nothing was printed and the library's factory was not
  called, so no client is returned and no request can have been sent.
\<close>

theorem anon_client_refused_when_invalid:
  "\<not> validate R \<Longrightarrow>
     create_supabase_client lib R = (Inl (ValueError msg_config_incomplete), [])
     \<and> msg_config_incomplete \<noteq> []
     \<and> (\<forall>c. fst (create_supabase_client lib R) \<noteq> Inr c)
     \<and> (\<forall>u k. Create_client u k \<notin> set (snd (create_supabase_client lib R)))"
  by (simp add: create_supabase_client_def msg_config_incomplete_def)

theorem anon_client_refused_when_invalid_witness:
  "create_supabase_client mock_sdk (full_config\<lparr>anon_key := None\<rparr>)
     = (Inl (ValueError msg_config_incomplete), [])"
proof -
  have "\<not> validate (full_config\<lparr>anon_key := None\<rparr>)"
    by (simp add: validate_def full_config_def)
  from anon_client_refused_when_invalid [OF this, of mock_sdk] show ?thesis
    by (rule conjunct1)
qed

text \<open>
  Claim C3. \<open>create_supabase_admin_client\<close> raises \<open>ValueError\<close> exactly when the
  service role key is absent, that is unset or empty; the endpoint and the anonymous
  key play no part in that. When the key is present the factory is called with the
  endpoint field as it is and the service role key, whether or not \<open>validate\<close> holds.
\<close>

theorem admin_client_needs_only_service_role_key:
  "((\<exists>m. fst (create_supabase_admin_client lib R) = Inl (ValueError m))
      = (service_role_key R = None \<or> service_role_key R = Some []))
   \<and> (\<not> truthy (service_role_key R) \<longrightarrow>
        create_supabase_admin_client lib R = (Inl (ValueError msg_no_service_role_key), []))
   \<and> (truthy (service_role_key R) \<longrightarrow>
        create_supabase_admin_client lib R =
          (raised (create_client lib (url R) (service_role_key R)),
           [Print (connecting_admin_prefix @ py_str (url R)),
            Create_client (url R) (service_role_key R)]))"
  by (cases "service_role_key R")
     (simp_all add: create_supabase_admin_client_def raised_not_ValueError)

theorem admin_client_needs_only_service_role_key_witness:
  "create_supabase_admin_client mock_sdk (full_config\<lparr>service_role_key := None\<rparr>)
     = (Inl (ValueError msg_no_service_role_key), [])
   \<and> validate (full_config\<lparr>service_role_key := None\<rparr>)
   \<and> \<not> validate (full_config\<lparr>url := None, anon_key := None\<rparr>)
   \<and> create_supabase_admin_client mock_sdk (full_config\<lparr>url := None, anon_key := None\<rparr>)
     = (Inr (None, Some ''srk''),
        [Print (connecting_admin_prefix @ ''None''), Create_client None (Some ''srk'')])"
proof -
  let ?A = "full_config\<lparr>service_role_key := None\<rparr>"
  let ?B = "full_config\<lparr>url := None, anon_key := None\<rparr>"
  have a: "\<not> truthy (service_role_key ?A)"
    by (simp add: full_config_def)
  have b: "truthy (service_role_key ?B)"
    by (simp add: full_config_def)
  have v: "validate ?A" "\<not> validate ?B"
    by (simp_all add: validate_def full_config_def)
  have c: "raised (create_client mock_sdk (url ?B) (service_role_key ?B)) = Inr (None, Some ''srk'')"
    by (simp add: mock_sdk_def full_config_def)
  have d: "py_str (url ?B) = ''None''" "url ?B = None" "service_role_key ?B = Some ''srk''"
    by (simp_all add: full_config_def)
  from admin_client_needs_only_service_role_key [of mock_sdk ?A] a
  have 1: "create_supabase_admin_client mock_sdk ?A = (Inl (ValueError msg_no_service_role_key), [])"
    by blast
  from admin_client_needs_only_service_role_key [of mock_sdk ?B] b
  have "create_supabase_admin_client mock_sdk ?B =
          (raised (create_client mock_sdk (url ?B) (service_role_key ?B)),
           [Print (connecting_admin_prefix @ py_str (url ?B)),
            Create_client (url ?B) (service_role_key ?B)])"
    by blast
  then have 2: "create_supabase_admin_client mock_sdk ?B =
     (Inr (None, Some ''srk''),
        [Print (connecting_admin_prefix @ ''None''), Create_client None (Some ''srk'')])"
    by (simp add: mock_sdk_def full_config_def)
  from 1 2 v show ?thesis by simp
qed

text \<open>
  Claim C6. For a valid record whose service role key is present as well, both
  functions call the library's factory with the same endpoint; the anonymous client
  is built with \<open>anon_key\<close> and the administrator client with \<open>service_role_key\<close>,
  and what each returns is what the factory returned for those arguments.
\<close>

theorem clients_share_endpoint_differ_in_key:
  "validate R \<Longrightarrow> truthy (service_role_key R) \<Longrightarrow>
     create_supabase_client lib R =
       (raised (create_client lib (url R) (anon_key R)),
        [Print (connecting_prefix @ py_str (url R)), Create_client (url R) (anon_key R)])
   \<and> create_supabase_admin_client lib R =
       (raised (create_client lib (url R) (service_role_key R)),
        [Print (connecting_admin_prefix @ py_str (url R)),
         Create_client (url R) (service_role_key R)])"
  by (simp add: create_supabase_client_def create_supabase_admin_client_def)

theorem clients_share_endpoint_differ_in_key_witness:
  "fst (create_supabase_client mock_sdk full_config)
     = Inr (Some ''https://abc.supabase.co'', Some ''anon'')
   \<and> fst (create_supabase_admin_client mock_sdk full_config)
     = Inr (Some ''https://abc.supabase.co'', Some ''srk'')"
proof -
  have v: "validate full_config" and t: "truthy (service_role_key full_config)"
    by (simp_all add: validate_def full_config_def)
  from clients_share_endpoint_differ_in_key [OF v t, of mock_sdk] show ?thesis
    by (simp add: mock_sdk_def full_config_def)
qed

text \<open>
  Claim C9. Importing supabase\_client.py builds the global anonymous client at once.
  If the global configuration is not valid, the import ends with the \<open>ValueError\<close>
  of \<open>create_supabase_client\<close> and nothing has been printed or called. If the import
  succeeds, the configuration is valid and the global \<open>supabase\<close> is the client that
  the factory returned for the configured endpoint and anonymous key.
\<close>

theorem import_builds_global_client:
  "(\<not> validate (config_module load_dotenv env) \<longrightarrow>
      import_supabase_client load_dotenv lib env
        = (Inl (ValueError msg_config_incomplete), []))
   \<and> (\<forall>m. fst (import_supabase_client load_dotenv lib env) = Inr m \<longrightarrow>
          config m = config_module load_dotenv env
        \<and> validate (config m)
        \<and> create_client lib (url (config m)) (anon_key (config m)) = Inr (supabase m)
        \<and> snd (import_supabase_client load_dotenv lib env) =
            [Print (connecting_prefix @ py_str (url (config m))),
             Create_client (url (config m)) (anon_key (config m))])"
  by (auto simp: import_supabase_client_def create_supabase_client_def Let_def
                 raised_Inr_iff
           split: sum.splits)

theorem import_builds_global_client_witness:
  "import_supabase_client (\<lambda>e. e) mock_sdk Map.empty
     = (Inl (ValueError msg_config_incomplete), [])
   \<and> create_client mock_sdk (Some ''https://abc.supabase.co'') (Some ''anon'')
     = Inr (Some ''https://abc.supabase.co'', Some ''anon'')
   \<and> fst (import_supabase_client (\<lambda>e. e) mock_sdk
            [''SUPABASE_URL'' \<mapsto> ''https://abc.supabase.co'',
             ''SUPABASE_ANON_KEY'' \<mapsto> ''anon''])
     = Inr \<lparr> config =
               \<lparr> url = Some ''https://abc.supabase.co'', anon_key = Some ''anon'',
                 service_role_key = None, jwt_secret = None, database_url = None \<rparr>,
             supabase = (Some ''https://abc.supabase.co'', Some ''anon'') \<rparr>"
proof -
  let ?env = "[''SUPABASE_URL'' \<mapsto> ''https://abc.supabase.co'',
               ''SUPABASE_ANON_KEY'' \<mapsto> ''anon'']"
  let ?m = "\<lparr> config =
               \<lparr> url = Some ''https://abc.supabase.co'', anon_key = Some ''anon'',
                 service_role_key = None, jwt_secret = None, database_url = None \<rparr>,
             supabase = (Some ''https://abc.supabase.co'', Some ''anon'') \<rparr>"
  have inv: "\<not> validate (config_module (\<lambda>e. e) Map.empty)"
    by (simp add: config_module_def SupabaseConfig_init_def getenv_def validate_def)
  have ok: "fst (import_supabase_client (\<lambda>e. e) mock_sdk ?env) = Inr ?m"
    by (simp add: import_supabase_client_def create_supabase_client_def config_module_def
          SupabaseConfig_init_def getenv_def validate_def mock_sdk_def)
  from import_builds_global_client [of "\<lambda>e. e" Map.empty mock_sdk] inv
  have 1: "import_supabase_client (\<lambda>e. e) mock_sdk Map.empty
             = (Inl (ValueError msg_config_incomplete), [])"
    by blast
  from import_builds_global_client [of "\<lambda>e. e" ?env mock_sdk] ok
  have "create_client mock_sdk (url (config ?m)) (anon_key (config ?m)) = Inr (supabase ?m)"
    by blast
  then have 2: "create_client mock_sdk (Some ''https://abc.supabase.co'') (Some ''anon'')
     = Inr (Some ''https://abc.supabase.co'', Some ''anon'')"
    by simp
  from 1 2 ok show ?thesis by simp
qed

section \<open>Properties of the snapshot script\<close>

lemma probe_tables_skip:
  "table_select lib client n = Inl e \<Longrightarrow>
     probe_tables lib client names acc = probe_tables lib client (removeAll n names) acc"
proof (induction names arbitrary: acc)
  case Nil
  show ?case by simp
next
  case (Cons m names)
  show ?case
  proof (cases "m = n")
    case True
    then show ?thesis using Cons by simp
  next
    case False
    then show ?thesis
      using Cons by (simp split: sum.splits option.splits)
  qed
qed

lemma probe_tables_acc:
  "probe_tables lib client names acc = acc @ probe_tables lib client names []"
proof (induction names arbitrary: acc)
  case Nil
  show ?case by simp
next
  case (Cons m names)
  show ?case
  proof (cases "table_select lib client m")
    case (Inl e)
    then show ?thesis using Cons.IH [of acc] by simp
  next
    case (Inr r)
    show ?thesis
    proof (cases r)
      case None
      with Inr show ?thesis using Cons.IH [of acc] by simp
    next
      case (Some d)
      with Inr show ?thesis
        using Cons.IH [of "acc @ [table_entry m d]"] Cons.IH [of "[table_entry m d]"]
        by simp
    qed
  qed
qed

lemma probe_tables_keeps:
  "m \<in> set names \<Longrightarrow> table_select lib client m = Inr (Some d) \<Longrightarrow>
     table_entry m d \<in> set (probe_tables lib client names acc)"
proof (induction names arbitrary: acc)
  case Nil
  then show ?case by simp
next
  case (Cons k names)
  show ?case
  proof (cases "k = m")
    case True
    have "table_entry m d \<in> set ((acc @ [table_entry m d]) @ probe_tables lib client names [])"
      by simp
    then have "table_entry m d \<in> set (probe_tables lib client names (acc @ [table_entry m d]))"
      by (simp only: probe_tables_acc [of lib client names "acc @ [table_entry m d]", symmetric])
    with True Cons.prems show ?thesis by simp
  next
    case False
    with Cons.prems have "m \<in> set names" by simp
    from Cons.IH [OF this Cons.prems(2)] show ?thesis
      by (simp split: sum.splits option.splits)
  qed
qed


text \<open>
  Claim C7. An exception while probing one table name does not end the enumeration:
  the result for the fixed list of names is the result for the list without the
  failing name, every table of the list whose probe answers with data is still in
  the result, and the function returns its list (and reports its length) as usual.
\<close>

theorem probe_failure_is_skipped:
  "table_select lib client n = Inl e \<Longrightarrow>
     fst (get_database_tables lib client) = probe_tables lib client (removeAll n common_tables) []
   \<and> snd (get_database_tables lib client)
       = [Tables_found (length (fst (get_database_tables lib client)))]
   \<and> (\<forall>m d. m \<in> set common_tables \<and> table_select lib client m = Inr (Some d) \<longrightarrow>
         table_entry m d \<in> set (fst (get_database_tables lib client)))"
  using probe_tables_skip [of lib client n e common_tables "[]"]
        probe_tables_keeps [of _ common_tables lib client _ "[]"]
  by (simp add: get_database_tables_def Let_def)

theorem probe_failure_is_skipped_witness:
  "fst (get_database_tables mock_sdk (None, None))
     = probe_tables mock_sdk (None, None) [''profiles'', ''users'', ''comments'', ''settings''] []
   \<and> table_entry ''users'' [PDict [(''id'', PInt 1)], PDict [(''id'', PInt 2)]]
       \<in> set (fst (get_database_tables mock_sdk (None, None)))"
proof -
  have fails: "table_select mock_sdk (None, None) ''posts'' = Inl ''relation does not exist''"
    by (simp add: mock_sdk_def)
  have users: "''users'' \<in> set common_tables
      \<and> table_select mock_sdk (None, None) ''users''
          = Inr (Some [PDict [(''id'', PInt 1)], PDict [(''id'', PInt 2)]])"
    by (simp add: mock_sdk_def common_tables_def)
  have rm: "removeAll ''posts'' common_tables = [''profiles'', ''users'', ''comments'', ''settings'']"
    by (simp add: common_tables_def)
  from probe_failure_is_skipped [OF fails] users show ?thesis
    unfolding rm by blast
qed






lemma main_mock_output:
  "main mock_sdk mock_files =
    (Inr (),
     [Starting, Connecting_to ''https://abc.supabase.co'', Client_created,
      Conn_test_failed ''not allowed'', Continuing, Fetching_tables,
      Tables_found 2, Fetching_buckets, Buckets_found 1, Schema_saved,
      Creating_env_file, Env_file_created, Creating_example, Example_created,
      Summary 2 1],
     Some (fst (json_dump (schema_data
       [table_entry ''users'' [PDict [(''id'', PInt 1)], PDict [(''id'', PInt 2)]],
        table_entry ''settings'' []]
       [PDict [(''name'', PStr ''avatars'')]]))))"
  by code_simp









text \<open>
  Claim C10. \<open>test_supabase_connection\<close> returns \<open>True\<close> whatever the client and
  whatever the probe does, also when the probe raises. So \<open>main\<close> never returns at
  line 195: whenever it has printed that the client was created, it goes on to the
  enumeration of the tables.
\<close>

theorem connection_test_never_stops_main:
  "fst (test_supabase_connection lib client) = True
   \<and> (\<forall>e. list_users lib client = Inl e \<longrightarrow>
         test_supabase_connection lib client = (True, [Conn_test_failed e, Continuing]))
   \<and> (Client_created \<in> set (fst (snd (main lib fs))) \<longrightarrow>
         Fetching_tables \<in> set (fst (snd (main lib fs))))"
proof -
  have t: "fst (test_supabase_connection lib c) = True" for c
    by (simp add: test_supabase_connection_def split: sum.splits)
  have ok: "b" if "test_supabase_connection lib c = (b, out)" for c b out
    using t [of c] that by simp
  have "Client_created \<in> set (fst (snd (main lib fs))) \<Longrightarrow>
         Fetching_tables \<in> set (fst (snd (main lib fs)))"
    by (auto simp: main_def Let_def load_env_config_def
           split: prod.splits sum.splits if_splits option.splits exn.splits
           dest!: ok)
  then show ?thesis
    using t by (simp add: test_supabase_connection_def)
qed

theorem connection_test_never_stops_main_witness:
  "list_users mock_sdk (Some ''https://abc.supabase.co'', Some ''srk'') = Inl ''not allowed''
   \<and> test_supabase_connection mock_sdk (Some ''https://abc.supabase.co'', Some ''srk'')
       = (True, [Conn_test_failed ''not allowed'', Continuing])
   \<and> Client_created \<in> set (fst (snd (main mock_sdk mock_files)))
   \<and> Fetching_tables \<in> set (fst (snd (main mock_sdk mock_files)))"
proof -
  let ?c = "(Some ''https://abc.supabase.co'', Some ''srk'')"
  have refused: "list_users mock_sdk ?c = Inl ''not allowed''"
    by (simp add: mock_sdk_def)
  have created: "Client_created \<in> set (fst (snd (main mock_sdk mock_files)))"
    by (simp add: main_mock_output)
  from connection_test_never_stops_main [of mock_sdk ?c mock_files] refused created
  show ?thesis by blast
qed

end
